theory Spec2Isabelle
  imports Complex_Main "HOL-Library.Char_ord" "HOL-Library.List_Lexorder"
begin

section \<open>Status model (src/utils/status.ts)\<close>

text \<open>
  A status is the string the source stores in \<open>RepairTransfer.status\<close>. The TypeScript
  type narrows it to five literals; at run time it is a plain string, and the functions
  below are defined on every string, as \<open>Array.prototype.indexOf\<close> and \<open>===\<close> are.
\<close>

type_synonym status = string

definition STATUS_ORDER :: "status list" where
  "STATUS_ORDER = [''Pending'', ''Received'', ''In Repair'', ''Done'', ''Returned'']"

text \<open>\<open>Array.prototype.indexOf\<close>: the first index holding the value, or \<open>-1\<close>.\<close>

fun indexOf :: "'a list \<Rightarrow> 'a \<Rightarrow> int" where
  "indexOf [] x = - 1"
| "indexOf (y # ys) x =
     (if y = x then 0
      else (let i = indexOf ys x in if i = - 1 then - 1 else i + 1))"

definition getNextStatus :: "status \<Rightarrow> status option" where
  "getNextStatus currentStatus =
     (let currentIndex = indexOf STATUS_ORDER currentStatus
      in if currentIndex = - 1 \<or> currentIndex = int (length STATUS_ORDER) - 1
         then None
         else Some (STATUS_ORDER ! nat (currentIndex + 1)))"

definition canUpdateStatus :: "string \<Rightarrow> status \<Rightarrow> bool" where
  "canUpdateStatus userRole currentStatus =
     (if userRole = ''HQ Staff'' then False
      else if userRole = ''Technician'' then currentStatus \<noteq> ''Pending''
      else if userRole = ''Admin'' then True
      else False)"

section \<open>JavaScript string and truthiness helpers\<close>

text \<open>
  Strings are lists of characters, one per code unit; \<open>length\<close> is the source's
  \<open>.length\<close>. The white space that \<open>String.prototype.trim\<close> strips is, within the
  character range of \<^typ>\<open>char\<close>: tab, line feed, vertical tab, form feed, carriage
  return, space and no-break space.
\<close>

definition is_space :: "char \<Rightarrow> bool" where
  "is_space c = (c \<in> set [CHR 0x09, CHR 0x0A, CHR 0x0B, CHR 0x0C, CHR 0x0D, CHR 0x20, CHR 0xA0])"

definition trim :: "string \<Rightarrow> string" where
  "trim s = rev (dropWhile is_space (rev (dropWhile is_space s)))"

text \<open>\<open>s.substr(start, len)\<close> for non-negative arguments.\<close>

definition substr :: "string \<Rightarrow> nat \<Rightarrow> nat \<Rightarrow> string" where
  "substr s start len = take len (drop start s)"

text \<open>\<open>s.split(c)[0]\<close>: the part of \<open>s\<close> before the first \<open>c\<close> (all of \<open>s\<close> without one).\<close>

definition split_first :: "char \<Rightarrow> string \<Rightarrow> string" where
  "split_first c s = takeWhile (\<lambda>x. x \<noteq> c) s"

text \<open>The decimal rendering of a non-negative integer inside a template literal.\<close>

definition digit_char :: "nat \<Rightarrow> char" where
  "digit_char d = ''0123456789'' ! d"

fun show_nat :: "nat \<Rightarrow> string" where
  "show_nat n = (if n < 10 then [digit_char n] else show_nat (n div 10) @ [digit_char (n mod 10)])"

declare show_nat.simps [simp del]



text \<open>
  Truthiness of a string that may be \<open>undefined\<close>: \<open>undefined\<close> and the empty string
  are falsy. \<open>a || b\<close> is then \<open>a\<close> when \<open>a\<close> is truthy and \<open>b\<close> otherwise.
\<close>

definition truthy :: "string option \<Rightarrow> bool" where
  "truthy v = (case v of None \<Rightarrow> False | Some s \<Rightarrow> s \<noteq> [])"

definition or_else :: "string option \<Rightarrow> string option \<Rightarrow> string option" where
  "or_else a b = (if truthy a then a else b)"

definition or_default :: "string option \<Rightarrow> string \<Rightarrow> string" where
  "or_default a b = (case a of None \<Rightarrow> b | Some s \<Rightarrow> if s \<noteq> [] then s else b)"

section \<open>Data model (src/types)\<close>

text \<open>
  Field names follow the source; a short prefix tells the records apart, since several
  interfaces share field names (\<open>u_\<close> User, \<open>l_\<close> StatusLog, \<open>f_\<close> NewTransferForm,
  \<open>uf_\<close> StatusUpdateForm, \<open>p_\<close> a \<open>Partial<RepairTransfer>\<close>). An optional field
  (\<open>name?: T\<close>) is an option, \<open>None\<close> standing for \<open>undefined\<close> and \<open>null\<close>.
  A \<open>number\<close> is only stored and copied by the code modelled here, never computed
  with, apart from the dashboard's sum; it is carried as a rational. The source adds
  IEEE doubles there, so \<open>totalCost\<close> below is the exact sum and agrees with the
  source's only up to rounding; no property in this theory reads it.
\<close>

type_synonym number = rat

record User =
  u_id :: string
  u_email :: string
  u_name :: string
  u_role :: string
  u_branch :: string
  u_created_at :: string
  u_updated_at :: string

record RepairTransfer =
  t_id :: string
  branch_from :: string
  branch_to :: string
  customer_name :: string
  phone_model :: string
  imei :: string
  passcode :: "string option"
  problem_description :: string
  staff_receive_name :: string
  date_from_branch :: string
  staff_send_name :: "string option"
  date_sent_to_branch :: "string option"
  technician_receive_name :: "string option"
  date_received_by_tech :: "string option"
  date_repair_done :: "string option"
  repair_cost :: "number option"
  status :: status
  remarks :: "string option"
  updated_by :: string
  updated_at :: string
  created_at :: string
  user_id :: string

record StatusLog =
  l_id :: string
  l_transfer_id :: string
  l_old_status :: "string option"
  l_new_status :: string
  l_remarks :: "string option"
  l_updated_by :: string
  l_updated_at :: string
  l_user_id :: string

record NewTransferForm =
  f_customer_name :: string
  f_phone_model :: string
  f_imei :: string
  f_passcode :: string
  f_problem_description :: string
  f_staff_receive_name :: string
  f_date_from_branch :: string

record StatusUpdateForm =
  uf_status :: status
  uf_remarks :: string
  uf_technician_receive_name :: "string option"
  uf_date_received_by_tech :: "string option"
  uf_date_repair_done :: "string option"
  uf_repair_cost :: "number option"

text \<open>
  \<open>Partial<RepairTransfer>\<close>: every key of a transfer may be present (\<open>Some\<close>) or
  absent (\<open>None\<close>). A key whose value is \<open>undefined\<close> is not sent to the store, so it
  counts as absent.
\<close>

record RepairTransfer_partial =
  p_id :: "string option"
  p_branch_from :: "string option"
  p_branch_to :: "string option"
  p_customer_name :: "string option"
  p_phone_model :: "string option"
  p_imei :: "string option"
  p_passcode :: "string option"
  p_problem_description :: "string option"
  p_staff_receive_name :: "string option"
  p_date_from_branch :: "string option"
  p_staff_send_name :: "string option"
  p_date_sent_to_branch :: "string option"
  p_technician_receive_name :: "string option"
  p_date_received_by_tech :: "string option"
  p_date_repair_done :: "string option"
  p_repair_cost :: "number option"
  p_status :: "status option"
  p_remarks :: "string option"
  p_updated_by :: "string option"
  p_updated_at :: "string option"
  p_created_at :: "string option"
  p_user_id :: "string option"

definition empty_partial :: RepairTransfer_partial where
  "empty_partial = \<lparr>p_id = None, p_branch_from = None, p_branch_to = None,
     p_customer_name = None, p_phone_model = None, p_imei = None, p_passcode = None,
     p_problem_description = None, p_staff_receive_name = None, p_date_from_branch = None,
     p_staff_send_name = None, p_date_sent_to_branch = None,
     p_technician_receive_name = None, p_date_received_by_tech = None,
     p_date_repair_done = None, p_repair_cost = None, p_status = None, p_remarks = None,
     p_updated_by = None, p_updated_at = None, p_created_at = None, p_user_id = None\<rparr>"

section \<open>The persistence store and the environment\<close>

text \<open>
  Modelled from the spec: the persistence store (the hosted database behind
  \<open>blink.db\<close>) is not part of the sources. The spec describes it as a collection-oriented
  store with \<open>create(record)\<close>, \<open>update(id, partialFields)\<close> and \<open>list(filter, orderBy)\<close>
  over the transfer and status-log collections. A collection is the list of its rows
  in insertion order; \<open>create\<close> appends a row, \<open>update\<close> overwrites the given keys of the
  rows with that id, \<open>list\<close> keeps the rows that equal the \<open>where\<close> clause, sorts them
  when an \<open>orderBy\<close> is given and cuts them at \<open>limit\<close>.
\<close>

record db =
  repairTransfers :: "RepairTransfer list"
  statusLogs :: "StatusLog list"

definition pick :: "'a option \<Rightarrow> 'a \<Rightarrow> 'a" where
  "pick new old = (case new of None \<Rightarrow> old | Some v \<Rightarrow> v)"

definition pick_opt :: "'a option \<Rightarrow> 'a option \<Rightarrow> 'a option" where
  "pick_opt new old = (case new of None \<Rightarrow> old | Some v \<Rightarrow> Some v)"

definition apply_partial :: "RepairTransfer_partial \<Rightarrow> RepairTransfer \<Rightarrow> RepairTransfer" where
  "apply_partial p r =
     \<lparr>t_id = pick (p_id p) (t_id r),
      branch_from = pick (p_branch_from p) (branch_from r),
      branch_to = pick (p_branch_to p) (branch_to r),
      customer_name = pick (p_customer_name p) (customer_name r),
      phone_model = pick (p_phone_model p) (phone_model r),
      imei = pick (p_imei p) (imei r),
      passcode = pick_opt (p_passcode p) (passcode r),
      problem_description = pick (p_problem_description p) (problem_description r),
      staff_receive_name = pick (p_staff_receive_name p) (staff_receive_name r),
      date_from_branch = pick (p_date_from_branch p) (date_from_branch r),
      staff_send_name = pick_opt (p_staff_send_name p) (staff_send_name r),
      date_sent_to_branch = pick_opt (p_date_sent_to_branch p) (date_sent_to_branch r),
      technician_receive_name =
        pick_opt (p_technician_receive_name p) (technician_receive_name r),
      date_received_by_tech = pick_opt (p_date_received_by_tech p) (date_received_by_tech r),
      date_repair_done = pick_opt (p_date_repair_done p) (date_repair_done r),
      repair_cost = pick_opt (p_repair_cost p) (repair_cost r),
      status = pick (p_status p) (status r),
      remarks = pick_opt (p_remarks p) (remarks r),
      updated_by = pick (p_updated_by p) (updated_by r),
      updated_at = pick (p_updated_at p) (updated_at r),
      created_at = pick (p_created_at p) (created_at r),
      user_id = pick (p_user_id p) (user_id r)\<rparr>"

definition create_transfer :: "RepairTransfer \<Rightarrow> db \<Rightarrow> db" where
  "create_transfer r d = d\<lparr>repairTransfers := repairTransfers d @ [r]\<rparr>"

definition create_log :: "StatusLog \<Rightarrow> db \<Rightarrow> db" where
  "create_log l d = d\<lparr>statusLogs := statusLogs d @ [l]\<rparr>"

definition update_transfer :: "string \<Rightarrow> RepairTransfer_partial \<Rightarrow> db \<Rightarrow> db" where
  "update_transfer tid p d =
     d\<lparr>repairTransfers :=
         map (\<lambda>r. if t_id r = tid then apply_partial p r else r) (repairTransfers d)\<rparr>"

text \<open>\<open>orderBy: {key: 'desc'}\<close>: largest key first.\<close>

definition order_desc :: "('a \<Rightarrow> string) \<Rightarrow> 'a list \<Rightarrow> 'a list" where
  "order_desc key rows = rev (sort_key key rows)"

definition list_transfers :: "(RepairTransfer \<Rightarrow> bool) \<Rightarrow> db \<Rightarrow> RepairTransfer list" where
  "list_transfers wh d = filter wh (repairTransfers d)"

definition list_logs :: "(StatusLog \<Rightarrow> bool) \<Rightarrow> db \<Rightarrow> StatusLog list" where
  "list_logs wh d = filter wh (statusLogs d)"

text \<open>
  What an operation reads from outside: the clock (\<open>Date.now()\<close> and
  \<open>new Date().toISOString()\<close>, one field per reading in program order), the random
  source (\<open>Math.random().toString(36)\<close>), the time stamp the store writes into the
  \<open>created_at\<close> and \<open>updated_at\<close> columns that the code does not supply, and whether
  the n-th store call of the operation succeeds (it throws otherwise).
\<close>

record env =
  now_ms :: nat
  rand36 :: string
  now_iso :: string
  now_iso2 :: string
  log_now_ms :: nat
  log_rand36 :: string
  store_now :: string
  store_ok :: "nat \<Rightarrow> bool"

definition today :: "string \<Rightarrow> string" where
  "today stamp = split_first (CHR ''T'') stamp"

section \<open>Creating a transfer (NewTransfer page)\<close>

text \<open>
  \<open>validateForm\<close> collects one message per invalid field, in the order of its checks,
  and accepts the form when it collected none.
\<close>

definition form_errors :: "NewTransferForm \<Rightarrow> (string \<times> string) list" where
  "form_errors formData =
     (if trim (f_customer_name formData) = []
      then [(''customer_name'', ''Customer name is required'')] else [])
     @ (if trim (f_phone_model formData) = []
        then [(''phone_model'', ''Phone model is required'')] else [])
     @ (if trim (f_imei formData) = [] then [(''imei'', ''IMEI is required'')]
        else if length (f_imei formData) < 15
        then [(''imei'', ''IMEI must be at least 15 characters'')] else [])
     @ (if trim (f_problem_description formData) = []
        then [(''problem_description'', ''Problem description is required'')] else [])
     @ (if trim (f_staff_receive_name formData) = []
        then [(''staff_receive_name'', ''Staff name is required'')] else [])
     @ (if f_date_from_branch formData = []
        then [(''date_from_branch'', ''Date is required'')] else [])"

definition validateForm :: "NewTransferForm \<Rightarrow> bool" where
  "validateForm formData = (form_errors formData = [])"

definition new_transfer_id :: "env \<Rightarrow> string" where
  "new_transfer_id e = ''transfer_'' @ show_nat (now_ms e) @ ''_'' @ substr (rand36 e) 2 9"

definition new_log_id :: "env \<Rightarrow> string" where
  "new_log_id e = ''log_'' @ show_nat (log_now_ms e) @ ''_'' @ substr (log_rand36 e) 2 9"

text \<open>The row \<open>handleSubmit\<close> sends; the store fills in the two time stamps.\<close>

definition new_transfer :: "env \<Rightarrow> User \<Rightarrow> NewTransferForm \<Rightarrow> RepairTransfer" where
  "new_transfer e user formData =
     \<lparr>t_id = new_transfer_id e,
      branch_from = u_branch user,
      branch_to = ''Kluang'',
      customer_name = f_customer_name formData,
      phone_model = f_phone_model formData,
      imei = f_imei formData,
      passcode = (if f_passcode formData \<noteq> [] then Some (f_passcode formData) else None),
      problem_description = f_problem_description formData,
      staff_receive_name = f_staff_receive_name formData,
      date_from_branch = f_date_from_branch formData,
      staff_send_name = Some (u_name user),
      date_sent_to_branch = Some (today (now_iso e)),
      technician_receive_name = None,
      date_received_by_tech = None,
      date_repair_done = None,
      repair_cost = None,
      status = ''Pending'',
      remarks = None,
      updated_by = u_name user,
      updated_at = store_now e,
      created_at = store_now e,
      user_id = u_id user\<rparr>"

definition initial_log :: "env \<Rightarrow> User \<Rightarrow> StatusLog" where
  "initial_log e user =
     \<lparr>l_id = new_log_id e,
      l_transfer_id = new_transfer_id e,
      l_old_status = None,
      l_new_status = ''Pending'',
      l_remarks = Some ''Transfer created'',
      l_updated_by = u_name user,
      l_updated_at = store_now e,
      l_user_id = u_id user\<rparr>"

text \<open>
  How a submit ends: without a signed-in user nothing happens; an invalid form is
  rejected with its messages; a store call that throws is caught and reported; otherwise
  the page redirects to the new transfer.
\<close>

datatype submit_outcome =
  NoUser
  | Rejected "(string \<times> string) list"
  | StoreFailed
  | Redirected string

definition handleSubmit ::
  "env \<Rightarrow> User option \<Rightarrow> NewTransferForm \<Rightarrow> db \<Rightarrow> submit_outcome \<times> db" where
  "handleSubmit e user formData d =
     (case user of
        None \<Rightarrow> (NoUser, d)
      | Some u \<Rightarrow>
          if \<not> validateForm formData then (Rejected (form_errors formData), d)
          else if \<not> store_ok e 0 then (StoreFailed, d)
          else
            let d1 = create_transfer (new_transfer e u formData) d
            in if \<not> store_ok e 1 then (StoreFailed, d1)
               else (Redirected (''#/transfer/'' @ new_transfer_id e),
                     create_log (initial_log e u) d1))"

section \<open>Reading transfers (Dashboard, AllTransfers, TransferDetail)\<close>

text \<open>
  \<open>loadTransfers\<close> replaces the page's list with the rows the role may list; a role
  outside the three leaves the fresh empty list, and a store failure leaves the page's
  list as it was.
\<close>

definition loadTransfers ::
  "bool \<Rightarrow> User \<Rightarrow> db \<Rightarrow> RepairTransfer list \<Rightarrow> RepairTransfer list" where
  "loadTransfers ok currentUser d transfers =
     (if \<not> ok then transfers
      else if u_role currentUser = ''Admin''
      then order_desc created_at (list_transfers (\<lambda>r. True) d)
      else if u_role currentUser = ''HQ Staff''
      then order_desc created_at
             (list_transfers (\<lambda>r. branch_from r = u_branch currentUser) d)
      else if u_role currentUser = ''Technician''
      then order_desc created_at
             (list_transfers (\<lambda>r. branch_to r = u_branch currentUser) d)
      else [])"

record DashboardStats =
  total :: nat
  pending :: nat
  inRepair :: nat
  completed :: nat
  totalCost :: number

record dashboard_page =
  recentTransfers :: "RepairTransfer list"
  stats :: DashboardStats

definition loadDashboardData :: "bool \<Rightarrow> User \<Rightarrow> db \<Rightarrow> dashboard_page \<Rightarrow> dashboard_page" where
  "loadDashboardData ok currentUser d page =
     (if \<not> ok then page
      else
        let transfers =
          (if u_role currentUser = ''Admin''
           then take 10 (order_desc created_at (list_transfers (\<lambda>r. True) d))
           else if u_role currentUser = ''HQ Staff''
           then take 10 (order_desc created_at
                  (list_transfers (\<lambda>r. branch_from r = u_branch currentUser) d))
           else if u_role currentUser = ''Technician''
           then take 10 (order_desc created_at
                  (list_transfers (\<lambda>r. branch_to r = u_branch currentUser) d))
           else [])
        in \<lparr>recentTransfers = transfers,
            stats = \<lparr>total = length transfers,
              pending = length (filter (\<lambda>t. status t = ''Pending'') transfers),
              inRepair =
                length (filter (\<lambda>t. status t \<in> set [''Received'', ''In Repair'']) transfers),
              completed =
                length (filter (\<lambda>t. status t \<in> set [''Done'', ''Returned'']) transfers),
              totalCost =
                fold (\<lambda>t sum. sum + (case repair_cost t of None \<Rightarrow> 0 | Some c \<Rightarrow> c))
                  (filter (\<lambda>t. case repair_cost t of None \<Rightarrow> False | Some c \<Rightarrow> c \<noteq> 0)
                     transfers) 0\<rparr>\<rparr>)"

text \<open>The state of the TransferDetail page and its value when the page is mounted.\<close>

record detail_page =
  pg_user :: "User option"
  pg_transfer :: "RepairTransfer option"
  pg_statusLogs :: "StatusLog list"
  pg_updateForm :: StatusUpdateForm
  pg_showUpdateForm :: bool

definition initial_detail_page :: detail_page where
  "initial_detail_page =
     \<lparr>pg_user = None, pg_transfer = None, pg_statusLogs = [],
      pg_updateForm = \<lparr>uf_status = ''Pending'', uf_remarks = [],
        uf_technician_receive_name = Some [], uf_date_received_by_tech = Some [],
        uf_date_repair_done = Some [], uf_repair_cost = None\<rparr>,
      pg_showUpdateForm = False\<rparr>"

text \<open>
  \<open>loadTransferData\<close>: \<open>ok1\<close> and \<open>ok2\<close> say whether the transfer query and the log query
  succeed. Every early return, and the caught failure of the first query, leaves the
  page as it was; a failure of the second query leaves the transfer set and the rest
  as it was.
\<close>

definition loadTransferData ::
  "bool \<Rightarrow> bool \<Rightarrow> string \<Rightarrow> User \<Rightarrow> db \<Rightarrow> detail_page \<Rightarrow> detail_page" where
  "loadTransferData ok1 ok2 transferId currentUser d page =
     (if \<not> ok1 then page
      else
        case list_transfers (\<lambda>r. t_id r = transferId) d of
          [] \<Rightarrow> page
        | transferData # rest \<Rightarrow>
            if u_role currentUser = ''HQ Staff''
               \<and> branch_from transferData \<noteq> u_branch currentUser then page
            else if u_role currentUser = ''Technician''
               \<and> branch_to transferData \<noteq> u_branch currentUser then page
            else
              let page1 = page\<lparr>pg_transfer := Some transferData\<rparr>
              in if \<not> ok2 then page1
                 else page1
                   \<lparr>pg_statusLogs :=
                      order_desc l_updated_at
                        (list_logs (\<lambda>l. l_transfer_id l = transferId) d),
                    pg_updateForm := (pg_updateForm page1)
                      \<lparr>uf_status := status transferData,
                       uf_technician_receive_name :=
                         Some (or_default (technician_receive_name transferData) []),
                       uf_date_received_by_tech :=
                         Some (or_default (date_received_by_tech transferData) []),
                       uf_date_repair_done :=
                         Some (or_default (date_repair_done transferData) []),
                       uf_repair_cost := repair_cost transferData\<rparr>\<rparr>)"

text \<open>The read-scoping rule: which rows a user may be shown.\<close>

definition visible :: "User \<Rightarrow> RepairTransfer \<Rightarrow> bool" where
  "visible u r =
     (u_role u = ''Admin''
      \<or> (u_role u = ''HQ Staff'' \<and> branch_from r = u_branch u)
      \<or> (u_role u = ''Technician'' \<and> branch_to r = u_branch u))"

section \<open>Updating a status (TransferDetail page)\<close>

text \<open>The object \<open>updateData\<close> that \<open>handleStatusUpdate\<close> builds and sends to the store.\<close>

definition updateData ::
  "env \<Rightarrow> User \<Rightarrow> RepairTransfer \<Rightarrow> StatusUpdateForm \<Rightarrow> RepairTransfer_partial" where
  "updateData e user transfer updateForm =
     (let u0 = empty_partial
            \<lparr>p_status := Some (uf_status updateForm),
             p_remarks := or_else (Some (uf_remarks updateForm)) (remarks transfer),
             p_updated_by := Some (u_name user),
             p_updated_at := Some (now_iso e)\<rparr>;
          u1 = (if uf_status updateForm = ''Received''
                   \<and> truthy (uf_technician_receive_name updateForm)
                then u0\<lparr>p_technician_receive_name := uf_technician_receive_name updateForm,
                        p_date_received_by_tech :=
                          Some (or_default (uf_date_received_by_tech updateForm)
                                  (today (now_iso2 e)))\<rparr>
                else u0);
          u2 = (if uf_status updateForm = ''Done''
                   \<and> truthy (uf_date_repair_done updateForm)
                then (let u' = u1\<lparr>p_date_repair_done := uf_date_repair_done updateForm\<rparr>
                      in if uf_repair_cost updateForm \<noteq> None
                         then u'\<lparr>p_repair_cost := uf_repair_cost updateForm\<rparr>
                         else u')
                else u1)
      in u2)"

definition update_log :: "env \<Rightarrow> string \<Rightarrow> User \<Rightarrow> RepairTransfer \<Rightarrow> StatusUpdateForm \<Rightarrow> StatusLog" where
  "update_log e transferId user transfer updateForm =
     \<lparr>l_id = new_log_id e,
      l_transfer_id = transferId,
      l_old_status = Some (status transfer),
      l_new_status = uf_status updateForm,
      l_remarks = Some (uf_remarks updateForm),
      l_updated_by = u_name user,
      l_updated_at = store_now e,
      l_user_id = u_id user\<rparr>"

text \<open>
  \<open>handleStatusUpdate\<close> works on the page's copy of the user and the transfer. Store
  call 0 is the update of the transfer, call 1 the creation of the log entry, calls 2 and
  3 are the two queries of the reload. A failure of call 0 or 1 is caught and leaves the
  page as it was; the store keeps what was written before the failure.
\<close>

definition handleStatusUpdate ::
  "env \<Rightarrow> string \<Rightarrow> db \<Rightarrow> detail_page \<Rightarrow> db \<times> detail_page" where
  "handleStatusUpdate e transferId d page =
     (case (pg_user page, pg_transfer page) of
        (Some user, Some transfer) \<Rightarrow>
          if \<not> store_ok e 0 then (d, page)
          else
            let d1 = update_transfer transferId
                       (updateData e user transfer (pg_updateForm page)) d
            in if \<not> store_ok e 1 then (d1, page)
               else
                 let d2 = create_log
                            (update_log e transferId user transfer (pg_updateForm page)) d1;
                     page1 = loadTransferData (store_ok e 2) (store_ok e 3)
                               transferId user d2 page
                 in (d2, page1\<lparr>pg_showUpdateForm := False,
                           pg_updateForm := (pg_updateForm page1)\<lparr>uf_remarks := []\<rparr>\<rparr>)
      | _ \<Rightarrow> (d, page))"

section \<open>The auth module's permission check (src/utils/auth)\<close>

definition auth_canUpdateStatus :: "User option \<Rightarrow> RepairTransfer \<Rightarrow> bool" where
  "auth_canUpdateStatus user transfer =
     (case user of
        None \<Rightarrow> False
      | Some u \<Rightarrow>
          if u_role u = ''Admin'' then True
          else if u_role u = ''HQ Staff'' \<and> branch_from transfer = ''HQ'' then True
          else if u_role u = ''Technician'' \<and> branch_to transfer = u_branch u then True
          else False)"

text \<open>The fields of a transfer that are written when it is created and not afterwards.\<close>

definition creation_fields ::
  "RepairTransfer \<Rightarrow>
     (string \<times> string \<times> string \<times> string \<times> string \<times> string \<times> string option)
     \<times> (string \<times> string \<times> string \<times> string option \<times> string option \<times> string \<times> string)" where
  "creation_fields r =
     ((t_id r, branch_from r, branch_to r, customer_name r, phone_model r, imei r, passcode r),
      (problem_description r, staff_receive_name r, date_from_branch r, staff_send_name r,
       date_sent_to_branch r, created_at r, user_id r))"

text \<open>A submit is rejected when it ends in the validation branch.\<close>

definition rejected :: "submit_outcome \<Rightarrow> bool" where
  "rejected out = (case out of Rejected errs \<Rightarrow> True | _ \<Rightarrow> False)"

section \<open>Example data\<close>

text \<open>
  One clock and random reading, three users (HQ staff at HQ, an administrator, a
  technician at another branch), a valid intake form and one with a 14-character IMEI,
  the store after the valid form was submitted, a second reading and the store after a
  second submit, update forms as the detail page would hold them, and stores in which
  the transfer has moved on since a page loaded it.
\<close>

definition ex_env :: env where
  "ex_env = \<lparr>now_ms = 1700000000000, rand36 = ''0.4fzyo82mvyr'',
     now_iso = ''2024-05-01T10:00:00.000Z'', now_iso2 = ''2024-05-01T10:00:00.002Z'',
     log_now_ms = 1700000000001, log_rand36 = ''0.k2j9x1abcde'',
     store_now = ''2024-05-01T10:00:00.100Z'', store_ok = (\<lambda>n. True)\<rparr>"

definition ex_hq :: User where
  "ex_hq = \<lparr>u_id = ''u1'', u_email = ''siti@example.com'', u_name = ''Siti'',
     u_role = ''HQ Staff'', u_branch = ''HQ'',
     u_created_at = ''2024-01-01T00:00:00.000Z'', u_updated_at = ''2024-01-01T00:00:00.000Z''\<rparr>"

definition ex_admin :: User where
  "ex_admin = \<lparr>u_id = ''u2'', u_email = ''amir@example.com'', u_name = ''Amir'',
     u_role = ''Admin'', u_branch = ''HQ'',
     u_created_at = ''2024-01-01T00:00:00.000Z'', u_updated_at = ''2024-01-01T00:00:00.000Z''\<rparr>"

definition ex_tech :: User where
  "ex_tech = \<lparr>u_id = ''u3'', u_email = ''bob@example.com'', u_name = ''Bob'',
     u_role = ''Technician'', u_branch = ''Muar'',
     u_created_at = ''2024-01-01T00:00:00.000Z'', u_updated_at = ''2024-01-01T00:00:00.000Z''\<rparr>"

definition ex_form :: NewTransferForm where
  "ex_form = \<lparr>f_customer_name = ''Alice'', f_phone_model = ''X1'',
     f_imei = ''356938035643809'', f_passcode = [],
     f_problem_description = ''No power'', f_staff_receive_name = ''Siti'',
     f_date_from_branch = ''2024-05-01''\<rparr>"

definition ex_db0 :: db where
  "ex_db0 = \<lparr>repairTransfers = [], statusLogs = []\<rparr>"

definition ex_db1 :: db where
  "ex_db1 = snd (handleSubmit ex_env (Some ex_hq) ex_form ex_db0)"

definition ex_transfer_received :: RepairTransfer where
  "ex_transfer_received = (new_transfer ex_env ex_hq ex_form)
     \<lparr>status := ''Received'', remarks := Some ''Arrived at hub'',
      technician_receive_name := Some ''Bob'', date_received_by_tech := Some ''2024-05-02'',
      updated_by := ''Amir'', updated_at := ''2024-05-02T09:00:00.000Z''\<rparr>"

definition ex_db_received :: db where
  "ex_db_received = \<lparr>repairTransfers = [ex_transfer_received], statusLogs = []\<rparr>"

definition ex_update_received :: StatusUpdateForm where
  "ex_update_received = \<lparr>uf_status = ''Received'', uf_remarks = ''Arrived at hub'',
     uf_technician_receive_name = Some ''Bob'', uf_date_received_by_tech = Some [],
     uf_date_repair_done = Some [], uf_repair_cost = None\<rparr>"

definition ex_update_unnamed :: StatusUpdateForm where
  "ex_update_unnamed = \<lparr>uf_status = ''Received'', uf_remarks = ''Arrived at hub'',
     uf_technician_receive_name = Some [], uf_date_received_by_tech = Some [],
     uf_date_repair_done = Some [], uf_repair_cost = None\<rparr>"

definition ex_update_silent :: StatusUpdateForm where
  "ex_update_silent = \<lparr>uf_status = ''In Repair'', uf_remarks = [],
     uf_technician_receive_name = Some ''Bob'', uf_date_received_by_tech = Some ''2024-05-02'',
     uf_date_repair_done = Some [], uf_repair_cost = None\<rparr>"

definition ex_page :: "RepairTransfer \<Rightarrow> StatusUpdateForm \<Rightarrow> detail_page" where
  "ex_page t f = \<lparr>pg_user = Some ex_admin, pg_transfer = Some t, pg_statusLogs = [],
     pg_updateForm = f, pg_showUpdateForm = True\<rparr>"

definition ex_transfer :: RepairTransfer where
  "ex_transfer = new_transfer ex_env ex_hq ex_form"

definition ex_form_short :: NewTransferForm where
  "ex_form_short = \<lparr>f_customer_name = ''Alice'', f_phone_model = ''X1'',
     f_imei = ''35693803564380'', f_passcode = [],
     f_problem_description = ''No power'', f_staff_receive_name = ''Siti'',
     f_date_from_branch = ''2024-05-01''\<rparr>"

definition ex_transfer_other :: RepairTransfer where
  "ex_transfer_other = (new_transfer ex_env ex_hq ex_form)
     \<lparr>t_id := ''transfer_1700000000500_9x8c7b6a5'', branch_from := ''Batu Pahat''\<rparr>"

definition ex_db_two :: db where
  "ex_db_two = \<lparr>repairTransfers = [ex_transfer, ex_transfer_other], statusLogs = []\<rparr>"



definition ex_update_repair :: StatusUpdateForm where
  "ex_update_repair = \<lparr>uf_status = ''In Repair'', uf_remarks = ''Started'',
     uf_technician_receive_name = Some [], uf_date_received_by_tech = Some [],
     uf_date_repair_done = Some [], uf_repair_cost = None\<rparr>"

definition ex_transfer_replaced :: RepairTransfer where
  "ex_transfer_replaced = ex_transfer_received
     \<lparr>status := ''In Repair'', remarks := Some ''Screen replaced'',
      updated_at := ''2024-05-03T09:00:00.000Z''\<rparr>"

definition ex_db_replaced :: db where
  "ex_db_replaced = \<lparr>repairTransfers = [ex_transfer_replaced], statusLogs = []\<rparr>"

section \<open>Properties of the status model\<close>

lemma indexOf_absent: "x \<notin> set xs \<Longrightarrow> indexOf xs x = - 1"
  by (induction xs) (auto simp: Let_def)

text \<open>
  C1. For each of the five statuses \<open>s\<close>, \<open>canUpdateStatus role s\<close> is true for the role
  Admin, false for HQ Staff, \<open>s \<noteq> Pending\<close> for Technician, and false for every other
  role string.
\<close>

theorem canUpdateStatus_by_role:
  assumes "s \<in> set STATUS_ORDER"
  shows "canUpdateStatus ''Admin'' s
    \<and> \<not> canUpdateStatus ''HQ Staff'' s
    \<and> canUpdateStatus ''Technician'' s = (s \<noteq> ''Pending'')
    \<and> (role \<notin> {''Admin'', ''HQ Staff'', ''Technician''} \<longrightarrow> \<not> canUpdateStatus role s)"
  by (simp add: canUpdateStatus_def)

theorem canUpdateStatus_by_role_witness:
  "''Done'' \<in> set STATUS_ORDER
   \<and> ''Manager'' \<notin> {''Admin'', ''HQ Staff'', ''Technician''}
   \<and> canUpdateStatus ''Admin'' ''Done''
   \<and> \<not> canUpdateStatus ''HQ Staff'' ''Done''
   \<and> canUpdateStatus ''Technician'' ''Done'' = (''Done'' \<noteq> ''Pending'')
   \<and> \<not> canUpdateStatus ''Manager'' ''Done''"
proof -
  have s: "''Done'' \<in> set STATUS_ORDER" by (simp add: STATUS_ORDER_def)
  have r: "''Manager'' \<notin> {''Admin'', ''HQ Staff'', ''Technician''}" by simp
  from canUpdateStatus_by_role[OF s, of "''Manager''"] s r
  show ?thesis by blast
qed

text \<open>
  C9. In the order Pending, Received, In Repair, Done, Returned, \<open>getNextStatus\<close> gives
  for each of the first four statuses the one right after it; it gives null for
  Returned and for every string outside the five.
\<close>

theorem getNextStatus_successor:
  "getNextStatus ''Pending'' = Some ''Received''
   \<and> getNextStatus ''Received'' = Some ''In Repair''
   \<and> getNextStatus ''In Repair'' = Some ''Done''
   \<and> getNextStatus ''Done'' = Some ''Returned''
   \<and> getNextStatus ''Returned'' = None
   \<and> (s \<notin> set STATUS_ORDER \<longrightarrow> getNextStatus s = None)"
  by (simp add: getNextStatus_def STATUS_ORDER_def indexOf_absent[unfolded STATUS_ORDER_def])

theorem getNextStatus_successor_witness:
  "''Lost'' \<notin> set STATUS_ORDER \<and> getNextStatus ''Lost'' = None
   \<and> getNextStatus ''Done'' = Some ''Returned''"
  using getNextStatus_successor[of "''Lost''"] by (simp add: STATUS_ORDER_def)

section \<open>Auxiliary facts\<close>

lemma trim_Nil_iff: "trim s = [] \<longleftrightarrow> (\<forall>c\<in>set s. is_space c)"
proof
  assume "trim s = []"
  then have e: "dropWhile is_space (rev (dropWhile is_space s)) = []"
    by (simp add: trim_def)
  have "dropWhile is_space s = []"
  proof (rule ccontr)
    assume n: "dropWhile is_space s \<noteq> []"
    then have "\<not> is_space (hd (dropWhile is_space s))" by (rule hd_dropWhile)
    moreover from n have "hd (dropWhile is_space s) \<in> set (rev (dropWhile is_space s))"
      by simp
    ultimately show False using e by (simp add: dropWhile_eq_Nil_conv del: set_rev)
  qed
  then show "\<forall>c\<in>set s. is_space c" by simp
next
  assume "\<forall>c\<in>set s. is_space c"
  then show "trim s = []" by (auto simp: trim_def dest: set_dropWhileD)
qed

lemma form_errors_Nil_iff:
  "form_errors f = [] \<longleftrightarrow>
     \<not> (trim (f_customer_name f) = [] \<or> trim (f_phone_model f) = []
        \<or> trim (f_problem_description f) = [] \<or> trim (f_staff_receive_name f) = []
        \<or> f_date_from_branch f = []
        \<or> trim (f_imei f) = [] \<or> length (f_imei f) < 15)"
  by (auto simp: form_errors_def)

lemma ex_form_valid: "validateForm ex_form"
  by (simp add: validateForm_def form_errors_def ex_form_def trim_def is_space_def)

lemma ex_db1_eq: "ex_db1 = \<lparr>repairTransfers = [ex_transfer], statusLogs = [initial_log ex_env ex_hq]\<rparr>"
  by (simp add: ex_db1_def handleSubmit_def ex_form_valid ex_env_def ex_db0_def ex_transfer_def
      create_transfer_def create_log_def)

lemma ex_transfer_id: "new_transfer_id ex_env = ''transfer_1700000000000_4fzyo82mv''"
  by (simp add: new_transfer_id_def ex_env_def substr_def show_nat.simps digit_char_def)

lemma set_order_desc [simp]: "set (order_desc key rows) = set rows"
  by (simp add: order_desc_def)

lemma apply_partial_creation_fields:
  "p_id p = None \<Longrightarrow> p_branch_from p = None \<Longrightarrow> p_branch_to p = None \<Longrightarrow>
   p_customer_name p = None \<Longrightarrow> p_phone_model p = None \<Longrightarrow> p_imei p = None \<Longrightarrow>
   p_passcode p = None \<Longrightarrow> p_problem_description p = None \<Longrightarrow>
   p_staff_receive_name p = None \<Longrightarrow> p_date_from_branch p = None \<Longrightarrow>
   p_staff_send_name p = None \<Longrightarrow> p_date_sent_to_branch p = None \<Longrightarrow>
   p_created_at p = None \<Longrightarrow> p_user_id p = None \<Longrightarrow>
   creation_fields (apply_partial p r) = creation_fields r"
  by (simp add: creation_fields_def apply_partial_def pick_def pick_opt_def)

lemma updateData_keys:
  "p_id (updateData e u t f) = None \<and> p_branch_from (updateData e u t f) = None
   \<and> p_branch_to (updateData e u t f) = None \<and> p_customer_name (updateData e u t f) = None
   \<and> p_phone_model (updateData e u t f) = None \<and> p_imei (updateData e u t f) = None
   \<and> p_passcode (updateData e u t f) = None
   \<and> p_problem_description (updateData e u t f) = None
   \<and> p_staff_receive_name (updateData e u t f) = None
   \<and> p_date_from_branch (updateData e u t f) = None
   \<and> p_staff_send_name (updateData e u t f) = None
   \<and> p_date_sent_to_branch (updateData e u t f) = None
   \<and> p_created_at (updateData e u t f) = None \<and> p_user_id (updateData e u t f) = None"
  by (simp add: updateData_def empty_partial_def Let_def)

lemma update_transfer_creation_fields:
  "map creation_fields (repairTransfers (update_transfer tid (updateData e u t f) d))
     = map creation_fields (repairTransfers d)"
  by (simp add: update_transfer_def apply_partial_creation_fields updateData_keys)

lemma handleStatusUpdate_db:
  "fst (handleStatusUpdate e tid d pg) =
     (case (pg_user pg, pg_transfer pg) of
        (Some u, Some t) \<Rightarrow>
          if \<not> store_ok e 0 then d
          else if \<not> store_ok e 1
          then update_transfer tid (updateData e u t (pg_updateForm pg)) d
          else create_log (update_log e tid u t (pg_updateForm pg))
                 (update_transfer tid (updateData e u t (pg_updateForm pg)) d)
      | _ \<Rightarrow> d)"
  by (simp add: handleStatusUpdate_def Let_def split: option.splits)

lemma update_transfer_row:
  "r' \<in> set (repairTransfers (update_transfer tid p d)) \<Longrightarrow> p_id p = None \<Longrightarrow> t_id r' = tid \<Longrightarrow>
   \<exists>r\<in>set (repairTransfers d). t_id r = tid \<and> r' = apply_partial p r"
  by (auto simp: update_transfer_def apply_partial_def pick_def split: if_splits)

lemma ex_update_db:
  "fst (handleStatusUpdate ex_env (t_id ex_transfer) ex_db1 (ex_page ex_transfer f))
     = \<lparr>repairTransfers = [apply_partial (updateData ex_env ex_admin ex_transfer f) ex_transfer],
        statusLogs = [initial_log ex_env ex_hq,
          update_log ex_env (t_id ex_transfer) ex_admin ex_transfer f]\<rparr>"
proof -
  have ok: "store_ok ex_env 0" "store_ok ex_env 1" by (simp_all add: ex_env_def)
  show ?thesis using ok
    by (simp add: handleStatusUpdate_db ex_page_def ex_db1_eq update_transfer_def
        create_log_def)
qed









lemma ex_store_ok: "store_ok ex_env 0" "store_ok ex_env 1"
  by (simp_all add: ex_env_def)

section \<open>Creating a transfer\<close>



text \<open>
  C4. For a signed-in user, \<open>handleSubmit\<close> rejects the form exactly when the customer
  name, phone model, problem description or staff name is empty after trimming, the
  date is empty, or the IMEI is empty after trimming or shorter than 15 characters. A
  rejected submit leaves the store as it was; an accepted one, the store answering,
  adds one transfer and one log entry. An IMEI of 14 characters is rejected; an IMEI of
  15 characters that is not blank raises no IMEI message.
\<close>

theorem handleSubmit_rejects_iff_invalid:
  "(rejected (fst (handleSubmit e (Some u) f d))
      = (trim (f_customer_name f) = [] \<or> trim (f_phone_model f) = []
         \<or> trim (f_problem_description f) = [] \<or> trim (f_staff_receive_name f) = []
         \<or> f_date_from_branch f = []
         \<or> trim (f_imei f) = [] \<or> length (f_imei f) < 15))
   \<and> (rejected (fst (handleSubmit e (Some u) f d)) \<longrightarrow> snd (handleSubmit e (Some u) f d) = d)
   \<and> (\<not> rejected (fst (handleSubmit e (Some u) f d)) \<and> store_ok e 0 \<and> store_ok e 1 \<longrightarrow>
        length (repairTransfers (snd (handleSubmit e (Some u) f d)))
          = Suc (length (repairTransfers d))
        \<and> length (statusLogs (snd (handleSubmit e (Some u) f d)))
          = Suc (length (statusLogs d)))
   \<and> (length (f_imei f) = 14 \<longrightarrow> rejected (fst (handleSubmit e (Some u) f d)))
   \<and> (length (f_imei f) = 15 \<and> trim (f_imei f) \<noteq> [] \<longrightarrow>
        ''imei'' \<notin> fst ` set (form_errors f))"
proof -
  have r: "rejected (fst (handleSubmit e (Some u) f d)) = (\<not> validateForm f)"
    by (simp add: handleSubmit_def rejected_def Let_def)
  have c5: "length (f_imei f) = 15 \<and> trim (f_imei f) \<noteq> [] \<longrightarrow>
        ''imei'' \<notin> fst ` set (form_errors f)"
    by (auto simp: form_errors_def)
  have c2: "\<not> validateForm f \<Longrightarrow> snd (handleSubmit e (Some u) f d) = d"
    by (simp add: handleSubmit_def)
  have c3: "validateForm f \<Longrightarrow> store_ok e 0 \<Longrightarrow> store_ok e 1 \<Longrightarrow>
      length (repairTransfers (snd (handleSubmit e (Some u) f d)))
          = Suc (length (repairTransfers d))
        \<and> length (statusLogs (snd (handleSubmit e (Some u) f d)))
          = Suc (length (statusLogs d))"
    by (simp add: handleSubmit_def Let_def create_transfer_def create_log_def)
  show ?thesis
    using c2 c3 c5 unfolding r validateForm_def form_errors_Nil_iff by auto
qed

theorem handleSubmit_rejects_iff_invalid_witness:
  "length (f_imei ex_form_short) = 14
   \<and> rejected (fst (handleSubmit ex_env (Some ex_hq) ex_form_short ex_db0))
   \<and> snd (handleSubmit ex_env (Some ex_hq) ex_form_short ex_db0) = ex_db0
   \<and> length (f_imei ex_form) = 15
   \<and> \<not> rejected (fst (handleSubmit ex_env (Some ex_hq) ex_form ex_db0))
   \<and> length (repairTransfers (snd (handleSubmit ex_env (Some ex_hq) ex_form ex_db0))) = 1
   \<and> length (statusLogs (snd (handleSubmit ex_env (Some ex_hq) ex_form ex_db0))) = 1"
  using handleSubmit_rejects_iff_invalid[of ex_env ex_hq ex_form_short ex_db0]
    handleSubmit_rejects_iff_invalid[of ex_env ex_hq ex_form ex_db0]
  by (simp add: ex_form_short_def ex_form_def ex_env_def ex_db0_def trim_def is_space_def)

section \<open>Reading transfers\<close>

text \<open>
  C5. For a user with one of the three roles, every transfer that \<open>loadTransfers\<close>,
  \<open>loadDashboardData\<close> or \<open>loadTransferData\<close> puts on a page satisfies the
  read-scoping rule \<open>visible\<close>, provided what the page held before did; and when the
  transfer found for an id is out of scope, a freshly mounted detail page shows none.
\<close>

theorem read_scoping:
  assumes "u_role u \<in> {''Admin'', ''HQ Staff'', ''Technician''}"
  shows "((\<forall>r\<in>set ts. visible u r) \<longrightarrow> (\<forall>r\<in>set (loadTransfers ok u d ts). visible u r))
    \<and> ((\<forall>r\<in>set (recentTransfers dp). visible u r) \<longrightarrow>
         (\<forall>r\<in>set (recentTransfers (loadDashboardData ok u d dp)). visible u r))
    \<and> ((\<forall>r. pg_transfer pg = Some r \<longrightarrow> visible u r) \<longrightarrow>
         (\<forall>r. pg_transfer (loadTransferData ok1 ok2 tid u d pg) = Some r \<longrightarrow> visible u r))
    \<and> (\<forall>r rest. list_transfers (\<lambda>r. t_id r = tid) d = r # rest \<and> \<not> visible u r \<longrightarrow>
         pg_transfer (loadTransferData ok1 ok2 tid u d initial_detail_page) = None)"
proof -
  have a: "(\<forall>r\<in>set ts. visible u r) \<longrightarrow> (\<forall>r\<in>set (loadTransfers ok u d ts). visible u r)"
    by (auto simp: loadTransfers_def visible_def list_transfers_def)
  have b: "(\<forall>r\<in>set (recentTransfers dp). visible u r) \<longrightarrow>
         (\<forall>r\<in>set (recentTransfers (loadDashboardData ok u d dp)). visible u r)"
    by (auto simp: loadDashboardData_def visible_def list_transfers_def Let_def
        dest!: in_set_takeD)
  have c: "(\<forall>r. pg_transfer pg = Some r \<longrightarrow> visible u r) \<longrightarrow>
         (\<forall>r. pg_transfer (loadTransferData ok1 ok2 tid u d pg) = Some r \<longrightarrow> visible u r)"
    using assms
    by (auto simp: loadTransferData_def visible_def Let_def split: list.splits if_splits)
  have e: "\<forall>r rest. list_transfers (\<lambda>r. t_id r = tid) d = r # rest \<and> \<not> visible u r \<longrightarrow>
         pg_transfer (loadTransferData ok1 ok2 tid u d initial_detail_page) = None"
    using assms
    by (auto simp: loadTransferData_def visible_def Let_def initial_detail_page_def)
  from a b c e show ?thesis by blast
qed

theorem read_scoping_witness:
  "u_role ex_hq \<in> {''Admin'', ''HQ Staff'', ''Technician''}
   \<and> loadTransfers True ex_hq ex_db_two [] = [ex_transfer]
   \<and> visible ex_hq ex_transfer
   \<and> list_transfers (\<lambda>r. t_id r = t_id ex_transfer_other) ex_db_two = [ex_transfer_other]
   \<and> \<not> visible ex_hq ex_transfer_other
   \<and> pg_transfer (loadTransferData True True (t_id ex_transfer_other) ex_hq ex_db_two
        initial_detail_page) = None
   \<and> pg_transfer (loadTransferData True True (t_id ex_transfer) ex_hq ex_db_two
        initial_detail_page) = Some ex_transfer"
proof -
  have role: "u_role ex_hq \<in> {''Admin'', ''HQ Staff'', ''Technician''}"
    by (simp add: ex_hq_def)
  have ids: "t_id ex_transfer \<noteq> t_id ex_transfer_other"
    by (simp add: ex_transfer_def ex_transfer_other_def new_transfer_def ex_transfer_id)
  have l: "list_transfers (\<lambda>r. t_id r = t_id ex_transfer_other) ex_db_two = [ex_transfer_other]"
    using ids by (simp add: list_transfers_def ex_db_two_def)
  have nv: "\<not> visible ex_hq ex_transfer_other" and v: "visible ex_hq ex_transfer"
    by (simp_all add: visible_def ex_hq_def ex_transfer_other_def ex_transfer_def new_transfer_def)
  have lt: "loadTransfers True ex_hq ex_db_two [] = [ex_transfer]"
    by (simp add: loadTransfers_def list_transfers_def order_desc_def ex_db_two_def
        ex_hq_def ex_transfer_other_def ex_transfer_def new_transfer_def)
  have ld: "pg_transfer (loadTransferData True True (t_id ex_transfer) ex_hq ex_db_two
        initial_detail_page) = Some ex_transfer"
    using ids v by (simp add: loadTransferData_def list_transfers_def ex_db_two_def Let_def)
      (simp add: ex_hq_def ex_transfer_def new_transfer_def)
  from read_scoping[OF role, of "[]" True ex_db_two
      "\<lparr>recentTransfers = [], stats = \<lparr>total = 0, pending = 0, inRepair = 0, completed = 0, totalCost = 0\<rparr>\<rparr>"
      initial_detail_page True True "t_id ex_transfer_other"] l nv
  have "pg_transfer (loadTransferData True True (t_id ex_transfer_other) ex_hq ex_db_two
        initial_detail_page) = None" by blast
  with role lt v l nv ld show ?thesis by blast
qed

section \<open>The two permission checks\<close>

text \<open>
  C6, as stated, says that the check of \<open>utils/status\<close> and the check of \<open>utils/auth\<close>
  always agree. For HQ staff and a transfer sent from HQ the auth module allows the
  update and the status module refuses it.
\<close>

theorem canUpdateStatus_disagreement:
  "u_role ex_hq = ''HQ Staff'' \<and> branch_from ex_transfer = ''HQ''
   \<and> auth_canUpdateStatus (Some ex_hq) ex_transfer
   \<and> \<not> canUpdateStatus (u_role ex_hq) (status ex_transfer)"
  by (simp add: auth_canUpdateStatus_def canUpdateStatus_def ex_hq_def ex_transfer_def
      new_transfer_def)

text \<open>
  C6, amended. The two checks agree exactly when neither of these holds: the user is
  HQ staff and the transfer's \<open>branch_from\<close> is HQ; the user is a technician and
  "the status is not Pending" differs from "\<open>branch_to\<close> is the user's branch". In
  particular they agree for every administrator.
\<close>

theorem canUpdateStatus_agreement:
  "(auth_canUpdateStatus (Some u) t = canUpdateStatus (u_role u) (status t))
     = ((u_role u = ''HQ Staff'' \<longrightarrow> branch_from t \<noteq> ''HQ'')
        \<and> (u_role u = ''Technician'' \<longrightarrow>
             (status t \<noteq> ''Pending'') = (branch_to t = u_branch u)))"
  by (auto simp: auth_canUpdateStatus_def canUpdateStatus_def)

theorem canUpdateStatus_agreement_witness:
  "auth_canUpdateStatus (Some ex_admin) ex_transfer
     = canUpdateStatus (u_role ex_admin) (status ex_transfer)
   \<and> u_role ex_tech = ''Technician''
   \<and> (status ex_transfer \<noteq> ''Pending'') = (branch_to ex_transfer = u_branch ex_tech)
   \<and> auth_canUpdateStatus (Some ex_tech) ex_transfer
     = canUpdateStatus (u_role ex_tech) (status ex_transfer)"
  using canUpdateStatus_agreement[of ex_admin ex_transfer]
    canUpdateStatus_agreement[of ex_tech ex_transfer]
  by (simp add: ex_admin_def ex_tech_def ex_transfer_def new_transfer_def)

section \<open>Updating a status\<close>

text \<open>
  C2, as stated, says that an update to Received always sets
  \<open>date_received_by_tech\<close>. An administrator who selects Received and leaves the
  technician name empty gets a transfer with status Received and neither the
  technician name nor the date set.
\<close>

theorem received_without_technician_counterexample:
  "canUpdateStatus (u_role ex_admin) (status ex_transfer)
   \<and> uf_status ex_update_unnamed = ''Received''
   \<and> map status (repairTransfers (fst (handleStatusUpdate ex_env (t_id ex_transfer) ex_db1
        (ex_page ex_transfer ex_update_unnamed)))) = [''Received'']
   \<and> map technician_receive_name (repairTransfers (fst (handleStatusUpdate ex_env
        (t_id ex_transfer) ex_db1 (ex_page ex_transfer ex_update_unnamed)))) = [None]
   \<and> map date_received_by_tech (repairTransfers (fst (handleStatusUpdate ex_env
        (t_id ex_transfer) ex_db1 (ex_page ex_transfer ex_update_unnamed)))) = [None]"
proof -
  have p: "updateData ex_env ex_admin ex_transfer ex_update_unnamed
      = empty_partial\<lparr>p_status := Some ''Received'', p_remarks := Some ''Arrived at hub'',
          p_updated_by := Some ''Amir'', p_updated_at := Some ''2024-05-01T10:00:00.000Z''\<rparr>"
    by (simp add: updateData_def ex_update_unnamed_def truthy_def or_else_def Let_def
        ex_admin_def ex_env_def)
  have t: "technician_receive_name ex_transfer = None" "date_received_by_tech ex_transfer = None"
    "status ex_transfer = ''Pending''"
    by (simp_all add: ex_transfer_def new_transfer_def)
  have c: "canUpdateStatus (u_role ex_admin) (status ex_transfer)"
    by (simp add: canUpdateStatus_def ex_admin_def)
  have s: "uf_status ex_update_unnamed = ''Received''"
    by (simp add: ex_update_unnamed_def)
  from c s show ?thesis
    by (simp add: ex_update_db p apply_partial_def pick_def pick_opt_def empty_partial_def
        t(1,2))
qed

text \<open>
  C2, amended. When the new status is Received and the store accepts the update: with
  a non-empty technician name the transfer gets that name and gets as
  \<open>date_received_by_tech\<close> the date supplied, or the date part of the current time when
  none (or an empty one) is supplied; with an empty or missing technician name neither
  of the two fields is written.
\<close>

theorem received_fields_when_technician_named:
  assumes "pg_user pg = Some u" and "pg_transfer pg = Some t"
    and "uf_status (pg_updateForm pg) = ''Received''"
    and "store_ok e 0"
  shows "(truthy (uf_technician_receive_name (pg_updateForm pg)) \<longrightarrow>
           (\<forall>r\<in>set (repairTransfers (fst (handleStatusUpdate e tid d pg))). t_id r = tid \<longrightarrow>
              technician_receive_name r = uf_technician_receive_name (pg_updateForm pg)
              \<and> date_received_by_tech r =
                  Some (if truthy (uf_date_received_by_tech (pg_updateForm pg))
                        then the (uf_date_received_by_tech (pg_updateForm pg))
                        else today (now_iso2 e))))
    \<and> (\<not> truthy (uf_technician_receive_name (pg_updateForm pg)) \<longrightarrow>
           map technician_receive_name (repairTransfers (fst (handleStatusUpdate e tid d pg)))
             = map technician_receive_name (repairTransfers d)
           \<and> map date_received_by_tech (repairTransfers (fst (handleStatusUpdate e tid d pg)))
             = map date_received_by_tech (repairTransfers d))"
proof -
  let ?f = "pg_updateForm pg"
  let ?p = "updateData e u t ?f"
  have db: "repairTransfers (fst (handleStatusUpdate e tid d pg))
      = repairTransfers (update_transfer tid ?p d)"
    using assms by (simp add: handleStatusUpdate_db create_log_def)
  have named: "p_technician_receive_name ?p = uf_technician_receive_name ?f
      \<and> p_date_received_by_tech ?p =
          Some (if truthy (uf_date_received_by_tech ?f) then the (uf_date_received_by_tech ?f)
                else today (now_iso2 e))"
    if "truthy (uf_technician_receive_name ?f)"
    using that assms(3)
    by (auto simp: updateData_def empty_partial_def Let_def or_default_def truthy_def
        split: option.splits)
  have unnamed: "p_technician_receive_name ?p = None \<and> p_date_received_by_tech ?p = None"
    if "\<not> truthy (uf_technician_receive_name ?f)"
    using that assms(3) by (simp add: updateData_def empty_partial_def Let_def)
  have a: "truthy (uf_technician_receive_name ?f) \<longrightarrow>
           (\<forall>r\<in>set (repairTransfers (fst (handleStatusUpdate e tid d pg))). t_id r = tid \<longrightarrow>
              technician_receive_name r = uf_technician_receive_name ?f
              \<and> date_received_by_tech r =
                  Some (if truthy (uf_date_received_by_tech ?f)
                        then the (uf_date_received_by_tech ?f)
                        else today (now_iso2 e)))"
  proof (intro impI ballI)
    fix r assume tr: "truthy (uf_technician_receive_name ?f)"
      and "r \<in> set (repairTransfers (fst (handleStatusUpdate e tid d pg)))" "t_id r = tid"
    then obtain r0 where r: "r = apply_partial ?p r0"
      using update_transfer_row[of r tid ?p d] by (auto simp: db updateData_keys)
    from tr obtain n where n: "uf_technician_receive_name ?f = Some n"
      by (auto simp: truthy_def split: option.splits)
    show "technician_receive_name r = uf_technician_receive_name ?f
              \<and> date_received_by_tech r =
                  Some (if truthy (uf_date_received_by_tech ?f)
                        then the (uf_date_received_by_tech ?f)
                        else today (now_iso2 e))"
      using named[OF tr] n by (simp add: r apply_partial_def pick_opt_def)
  qed
  have b: "\<not> truthy (uf_technician_receive_name ?f) \<longrightarrow>
           map technician_receive_name (repairTransfers (fst (handleStatusUpdate e tid d pg)))
             = map technician_receive_name (repairTransfers d)
           \<and> map date_received_by_tech (repairTransfers (fst (handleStatusUpdate e tid d pg)))
             = map date_received_by_tech (repairTransfers d)"
    using unnamed by (simp add: db update_transfer_def apply_partial_def pick_opt_def)
  from a b show ?thesis by blast
qed

theorem received_fields_when_technician_named_witness:
  "pg_user (ex_page ex_transfer ex_update_received) = Some ex_admin
   \<and> pg_transfer (ex_page ex_transfer ex_update_received) = Some ex_transfer
   \<and> uf_status (pg_updateForm (ex_page ex_transfer ex_update_received)) = ''Received''
   \<and> store_ok ex_env 0
   \<and> truthy (uf_technician_receive_name (pg_updateForm (ex_page ex_transfer ex_update_received)))
   \<and> map technician_receive_name (repairTransfers (fst (handleStatusUpdate ex_env
        (t_id ex_transfer) ex_db1 (ex_page ex_transfer ex_update_received)))) = [Some ''Bob'']
   \<and> map date_received_by_tech (repairTransfers (fst (handleStatusUpdate ex_env
        (t_id ex_transfer) ex_db1 (ex_page ex_transfer ex_update_received))))
       = [Some ''2024-05-01'']"
proof -
  have u: "pg_user (ex_page ex_transfer ex_update_received) = Some ex_admin"
    and t: "pg_transfer (ex_page ex_transfer ex_update_received) = Some ex_transfer"
    and f: "pg_updateForm (ex_page ex_transfer ex_update_received) = ex_update_received"
    by (simp_all add: ex_page_def)
  have s: "uf_status (pg_updateForm (ex_page ex_transfer ex_update_received)) = ''Received''"
    and n: "truthy (uf_technician_receive_name
        (pg_updateForm (ex_page ex_transfer ex_update_received)))"
    unfolding f by (simp_all add: ex_update_received_def truthy_def)
  have ok: "store_ok ex_env 0" by (simp add: ex_env_def)
  let ?d = "fst (handleStatusUpdate ex_env (t_id ex_transfer) ex_db1
        (ex_page ex_transfer ex_update_received))"
  let ?r = "apply_partial (updateData ex_env ex_admin ex_transfer ex_update_received) ex_transfer"
  have rows: "repairTransfers ?d = [?r]"
    by (simp add: ex_update_db)
  have i: "t_id ?r = t_id ex_transfer"
    by (simp add: apply_partial_def pick_def updateData_keys)
  from received_fields_when_technician_named[OF u t s ok, of "t_id ex_transfer" ex_db1] n
  have "\<forall>r\<in>set (repairTransfers ?d). t_id r = t_id ex_transfer \<longrightarrow>
      technician_receive_name r = uf_technician_receive_name ex_update_received
      \<and> date_received_by_tech r =
          Some (if truthy (uf_date_received_by_tech ex_update_received)
                then the (uf_date_received_by_tech ex_update_received)
                else today (now_iso2 ex_env))"
    unfolding f by blast
  with rows i have "technician_receive_name ?r = uf_technician_receive_name ex_update_received
      \<and> date_received_by_tech ?r =
          Some (if truthy (uf_date_received_by_tech ex_update_received)
                then the (uf_date_received_by_tech ex_update_received)
                else today (now_iso2 ex_env))"
    by simp
  then have "technician_receive_name ?r = Some ''Bob''
      \<and> date_received_by_tech ?r = Some ''2024-05-01''"
    by (simp add: ex_update_received_def truthy_def today_def split_first_def ex_env_def)
  with u t s ok n rows show ?thesis by simp
qed

text \<open>
  C7, as stated, says that the old status of the log entry is the record's status from
  before the update. \<open>handleStatusUpdate\<close> takes it from the transfer the page loaded
  earlier: when the stored transfer has moved on to Received since, and the page still
  holds it as Pending, the entry records Pending.
\<close>

theorem stale_page_old_status_counterexample:
  "map t_id (repairTransfers ex_db_received) = [t_id ex_transfer]
   \<and> map status (repairTransfers ex_db_received) = [''Received'']
   \<and> pg_user (ex_page ex_transfer ex_update_repair) = Some ex_admin
   \<and> pg_transfer (ex_page ex_transfer ex_update_repair) = Some ex_transfer
   \<and> store_ok ex_env 0 \<and> store_ok ex_env 1
   \<and> map status (repairTransfers (fst (handleStatusUpdate ex_env (t_id ex_transfer)
        ex_db_received (ex_page ex_transfer ex_update_repair)))) = [''In Repair'']
   \<and> map l_old_status (statusLogs (fst (handleStatusUpdate ex_env (t_id ex_transfer)
        ex_db_received (ex_page ex_transfer ex_update_repair)))) = [Some ''Pending'']"
proof -
  have i: "t_id ex_transfer_received = t_id ex_transfer"
    by (simp add: ex_transfer_received_def ex_transfer_def)
  have db: "fst (handleStatusUpdate ex_env (t_id ex_transfer) ex_db_received
        (ex_page ex_transfer ex_update_repair))
      = \<lparr>repairTransfers =
           [apply_partial (updateData ex_env ex_admin ex_transfer ex_update_repair)
              ex_transfer_received],
         statusLogs = [update_log ex_env (t_id ex_transfer) ex_admin ex_transfer
           ex_update_repair]\<rparr>"
    using ex_store_ok
    by (simp add: handleStatusUpdate_db ex_page_def ex_db_received_def update_transfer_def
        create_log_def i)
  have s: "status (apply_partial (updateData ex_env ex_admin ex_transfer ex_update_repair)
              ex_transfer_received) = ''In Repair''"
    by (simp add: apply_partial_def pick_def updateData_def empty_partial_def Let_def
        ex_update_repair_def)
  have o: "l_old_status (update_log ex_env (t_id ex_transfer) ex_admin ex_transfer
           ex_update_repair) = Some ''Pending''"
    by (simp add: update_log_def ex_transfer_def new_transfer_def)
  have r: "map status (repairTransfers ex_db_received) = [''Received'']"
    by (simp add: ex_db_received_def ex_transfer_received_def)
  have p: "pg_user (ex_page ex_transfer ex_update_repair) = Some ex_admin"
    "pg_transfer (ex_page ex_transfer ex_update_repair) = Some ex_transfer"
    by (simp_all add: ex_page_def)
  from ex_store_ok p r show ?thesis
    by (simp add: db s o) (simp add: ex_db_received_def i)
qed

text \<open>
  C7, amended. A status update for which both store calls succeed appends exactly one
  log entry: for this transfer, with the status of the transfer as the page holds it as
  old status, the selected status as new status, the remarks of the form, and the
  acting user's name. When the page's transfer is the stored one, the old status is the
  stored status from before the update. The stored transfer then has the new status.
\<close>

theorem status_update_appends_log:
  assumes "pg_user pg = Some u" and "pg_transfer pg = Some t"
    and "store_ok e 0" and "store_ok e 1"
  shows "statusLogs (fst (handleStatusUpdate e tid d pg))
      = statusLogs d @ [update_log e tid u t (pg_updateForm pg)]
    \<and> l_transfer_id (update_log e tid u t (pg_updateForm pg)) = tid
    \<and> l_old_status (update_log e tid u t (pg_updateForm pg)) = Some (status t)
    \<and> l_new_status (update_log e tid u t (pg_updateForm pg)) = uf_status (pg_updateForm pg)
    \<and> l_remarks (update_log e tid u t (pg_updateForm pg)) = Some (uf_remarks (pg_updateForm pg))
    \<and> l_updated_by (update_log e tid u t (pg_updateForm pg)) = u_name u
    \<and> ((\<forall>r\<in>set (repairTransfers d). t_id r = tid \<longrightarrow> r = t) \<longrightarrow>
        (\<forall>r\<in>set (repairTransfers d). t_id r = tid \<longrightarrow>
           l_old_status (update_log e tid u t (pg_updateForm pg)) = Some (status r)))
    \<and> (\<forall>r\<in>set (repairTransfers (fst (handleStatusUpdate e tid d pg))). t_id r = tid \<longrightarrow>
           status r = uf_status (pg_updateForm pg))"
proof -
  have db: "fst (handleStatusUpdate e tid d pg)
      = create_log (update_log e tid u t (pg_updateForm pg))
          (update_transfer tid (updateData e u t (pg_updateForm pg)) d)"
    using assms by (simp add: handleStatusUpdate_db)
  have logs: "statusLogs (fst (handleStatusUpdate e tid d pg))
      = statusLogs d @ [update_log e tid u t (pg_updateForm pg)]"
    by (simp add: db create_log_def update_transfer_def)
  have st: "\<forall>r\<in>set (repairTransfers (fst (handleStatusUpdate e tid d pg))). t_id r = tid \<longrightarrow>
           status r = uf_status (pg_updateForm pg)"
  proof (intro ballI impI)
    fix r assume "r \<in> set (repairTransfers (fst (handleStatusUpdate e tid d pg)))" "t_id r = tid"
    then obtain r0 where "r = apply_partial (updateData e u t (pg_updateForm pg)) r0"
      using update_transfer_row[of r tid "updateData e u t (pg_updateForm pg)" d]
      by (auto simp: db create_log_def updateData_keys)
    then show "status r = uf_status (pg_updateForm pg)"
      by (simp add: apply_partial_def pick_def updateData_def empty_partial_def Let_def)
  qed
  show ?thesis using st by (simp add: logs) (simp add: update_log_def)
qed

theorem status_update_appends_log_witness:
  "pg_user (ex_page ex_transfer ex_update_received) = Some ex_admin
   \<and> pg_transfer (ex_page ex_transfer ex_update_received) = Some ex_transfer
   \<and> store_ok ex_env 0 \<and> store_ok ex_env 1
   \<and> map l_old_status (statusLogs (fst (handleStatusUpdate ex_env (t_id ex_transfer) ex_db1
        (ex_page ex_transfer ex_update_received)))) = [None, Some ''Pending'']
   \<and> map l_new_status (statusLogs (fst (handleStatusUpdate ex_env (t_id ex_transfer) ex_db1
        (ex_page ex_transfer ex_update_received)))) = [''Pending'', ''Received'']
   \<and> map l_remarks (statusLogs (fst (handleStatusUpdate ex_env (t_id ex_transfer) ex_db1
        (ex_page ex_transfer ex_update_received))))
       = [Some ''Transfer created'', Some ''Arrived at hub'']
   \<and> map l_updated_by (statusLogs (fst (handleStatusUpdate ex_env (t_id ex_transfer) ex_db1
        (ex_page ex_transfer ex_update_received)))) = [''Siti'', ''Amir'']"
proof -
  have u: "pg_user (ex_page ex_transfer ex_update_received) = Some ex_admin"
    and t: "pg_transfer (ex_page ex_transfer ex_update_received) = Some ex_transfer"
    and f: "pg_updateForm (ex_page ex_transfer ex_update_received) = ex_update_received"
    by (simp_all add: ex_page_def)
  have ok: "store_ok ex_env 0" "store_ok ex_env 1" by (simp_all add: ex_env_def)
  from status_update_appends_log[OF u t ok, of "t_id ex_transfer" ex_db1]
  show ?thesis using u t ok
    by (simp add: f ex_db1_eq)
      (simp add: initial_log_def ex_transfer_def new_transfer_def ex_update_received_def
        ex_hq_def ex_admin_def)
qed

text \<open>
  C8. However a status update ends, every stored transfer keeps its id, branches,
  customer name, phone model, IMEI, passcode, problem description, intake staff and
  date, sending staff and date, creation time and creator.
\<close>

text \<open>
  C8. However a status update ends, every stored transfer keeps its id, branches,
  customer name, phone model, IMEI, passcode, problem description, intake staff and
  date, sending staff and date, creation time and creator.
\<close>

theorem update_keeps_creation_fields:
  "map creation_fields (repairTransfers (fst (handleStatusUpdate e tid d pg)))
     = map creation_fields (repairTransfers d)"
  by (simp add: handleStatusUpdate_db create_log_def update_transfer_creation_fields
      split: option.splits)

theorem update_keeps_creation_fields_witness:
  "map creation_fields (repairTransfers (fst (handleStatusUpdate ex_env (t_id ex_transfer)
      ex_db1 (ex_page ex_transfer ex_update_received)))) = [creation_fields ex_transfer]"
  using update_keeps_creation_fields[of ex_env "t_id ex_transfer" ex_db1
      "ex_page ex_transfer ex_update_received"]
  by (simp add: ex_db1_eq)

text \<open>
  C10, as stated, says that an update with empty remarks keeps the record's remarks.
  \<open>handleStatusUpdate\<close> sends the remarks of the transfer the page loaded earlier:
  when the stored remarks have changed since, the update puts the page's older remarks
  back.
\<close>

theorem stale_page_remarks_counterexample:
  "map t_id (repairTransfers ex_db_replaced) = [t_id ex_transfer_received]
   \<and> map remarks (repairTransfers ex_db_replaced) = [Some ''Screen replaced'']
   \<and> pg_user (ex_page ex_transfer_received ex_update_silent) = Some ex_admin
   \<and> pg_transfer (ex_page ex_transfer_received ex_update_silent) = Some ex_transfer_received
   \<and> uf_remarks (pg_updateForm (ex_page ex_transfer_received ex_update_silent)) = []
   \<and> store_ok ex_env 0 \<and> store_ok ex_env 1
   \<and> map remarks (repairTransfers (fst (handleStatusUpdate ex_env (t_id ex_transfer_received)
        ex_db_replaced (ex_page ex_transfer_received ex_update_silent))))
       = [Some ''Arrived at hub'']"
proof -
  have i: "t_id ex_transfer_replaced = t_id ex_transfer_received"
    by (simp add: ex_transfer_replaced_def)
  have p: "pg_user (ex_page ex_transfer_received ex_update_silent) = Some ex_admin"
    "pg_transfer (ex_page ex_transfer_received ex_update_silent) = Some ex_transfer_received"
    "pg_updateForm (ex_page ex_transfer_received ex_update_silent) = ex_update_silent"
    by (simp_all add: ex_page_def)
  have f: "uf_remarks ex_update_silent = []" by (simp add: ex_update_silent_def)
  have rows: "repairTransfers (fst (handleStatusUpdate ex_env (t_id ex_transfer_received)
        ex_db_replaced (ex_page ex_transfer_received ex_update_silent)))
      = [apply_partial (updateData ex_env ex_admin ex_transfer_received ex_update_silent)
           ex_transfer_replaced]"
    using ex_store_ok
    by (simp add: handleStatusUpdate_db p ex_db_replaced_def update_transfer_def
        create_log_def i)
  have pr: "p_remarks (updateData ex_env ex_admin ex_transfer_received ex_update_silent)
      = Some ''Arrived at hub''"
    by (simp add: updateData_def empty_partial_def Let_def or_else_def truthy_def f
        ex_transfer_received_def)
  have r: "remarks (apply_partial (updateData ex_env ex_admin ex_transfer_received
      ex_update_silent) ex_transfer_replaced) = Some ''Arrived at hub''"
    by (simp add: apply_partial_def pick_opt_def pr)
  have b: "map remarks (repairTransfers ex_db_replaced) = [Some ''Screen replaced'']"
    "map t_id (repairTransfers ex_db_replaced) = [t_id ex_transfer_received]"
    by (simp_all add: ex_db_replaced_def ex_transfer_replaced_def)
  from ex_store_ok b p(1,2) show ?thesis by (simp add: rows r p(3) f)
qed

text \<open>
  C10, amended. A successful status update with empty remarks writes to the stored
  transfer the remarks of the transfer as the page holds it, and leaves the stored
  remarks alone when the page's transfer has none; so the stored remarks keep their
  value when the page's transfer has the stored remarks. The appended log entry has
  empty remarks; so when the remarks of the page's transfer are not empty, the stored
  transfer's remarks differ from those of the newest log entry.
\<close>

theorem empty_remarks_resend_page_remarks:
  assumes "pg_user pg = Some u" and "pg_transfer pg = Some t"
    and "uf_remarks (pg_updateForm pg) = []"
    and "store_ok e 0" and "store_ok e 1"
  shows "map remarks (repairTransfers (fst (handleStatusUpdate e tid d pg)))
      = map (\<lambda>r. if t_id r = tid
                  then (case remarks t of None \<Rightarrow> remarks r | Some v \<Rightarrow> Some v)
                  else remarks r) (repairTransfers d)
    \<and> ((\<forall>r\<in>set (repairTransfers d). t_id r = tid \<longrightarrow> remarks r = remarks t) \<longrightarrow>
         map remarks (repairTransfers (fst (handleStatusUpdate e tid d pg)))
           = map remarks (repairTransfers d))
    \<and> l_remarks (last (statusLogs (fst (handleStatusUpdate e tid d pg)))) = Some []
    \<and> (\<forall>prev. remarks t = Some prev \<and> prev \<noteq> [] \<longrightarrow>
         (\<forall>r\<in>set (repairTransfers (fst (handleStatusUpdate e tid d pg))). t_id r = tid \<longrightarrow>
            remarks r = Some prev
            \<and> remarks r \<noteq> l_remarks (last (statusLogs (fst (handleStatusUpdate e tid d pg))))))"
proof -
  let ?p = "updateData e u t (pg_updateForm pg)"
  let ?d' = "fst (handleStatusUpdate e tid d pg)"
  have db: "?d' = create_log (update_log e tid u t (pg_updateForm pg)) (update_transfer tid ?p d)"
    using assms by (simp add: handleStatusUpdate_db)
  have pr: "p_remarks ?p = remarks t"
    using assms(3) by (simp add: updateData_def empty_partial_def Let_def or_else_def truthy_def)
  have row: "remarks (apply_partial ?p r) = (case remarks t of None \<Rightarrow> remarks r | Some v \<Rightarrow> Some v)"
    for r by (simp add: apply_partial_def pick_opt_def pr)
  have m: "map remarks (repairTransfers ?d')
      = map (\<lambda>r. if t_id r = tid
                  then (case remarks t of None \<Rightarrow> remarks r | Some v \<Rightarrow> Some v)
                  else remarks r) (repairTransfers d)"
    by (simp add: db create_log_def update_transfer_def row)
  have c: "(\<forall>r\<in>set (repairTransfers d). t_id r = tid \<longrightarrow> remarks r = remarks t) \<longrightarrow>
         map remarks (repairTransfers ?d') = map remarks (repairTransfers d)"
    unfolding m by (auto split: option.splits)
  have l: "l_remarks (last (statusLogs ?d')) = Some []"
    using assms(3) by (simp add: db create_log_def update_transfer_def update_log_def)
  have k: "\<forall>prev. remarks t = Some prev \<and> prev \<noteq> [] \<longrightarrow>
         (\<forall>r\<in>set (repairTransfers ?d'). t_id r = tid \<longrightarrow> remarks r = Some prev)"
  proof (intro allI impI ballI)
    fix prev r assume p: "remarks t = Some prev \<and> prev \<noteq> []"
      and "r \<in> set (repairTransfers ?d')" "t_id r = tid"
    then obtain r0 where "r = apply_partial ?p r0"
      using update_transfer_row[of r tid ?p d]
      by (auto simp: db create_log_def updateData_keys)
    then show "remarks r = Some prev" using row[of r0] p by simp
  qed
  have e: "\<forall>prev. remarks t = Some prev \<and> prev \<noteq> [] \<longrightarrow>
         (\<forall>r\<in>set (repairTransfers ?d'). t_id r = tid \<longrightarrow>
            remarks r = Some prev \<and> remarks r \<noteq> l_remarks (last (statusLogs ?d')))"
    unfolding l using k by fastforce
  from m c l e show ?thesis by blast
qed

theorem empty_remarks_resend_page_remarks_witness:
  "pg_user (ex_page ex_transfer_received ex_update_silent) = Some ex_admin
   \<and> pg_transfer (ex_page ex_transfer_received ex_update_silent) = Some ex_transfer_received
   \<and> uf_remarks (pg_updateForm (ex_page ex_transfer_received ex_update_silent)) = []
   \<and> store_ok ex_env 0 \<and> store_ok ex_env 1
   \<and> remarks ex_transfer_received = Some ''Arrived at hub''
   \<and> map remarks (repairTransfers ex_db_received) = [Some ''Arrived at hub'']
   \<and> map remarks (repairTransfers (fst (handleStatusUpdate ex_env (t_id ex_transfer_received)
        ex_db_received (ex_page ex_transfer_received ex_update_silent))))
       = [Some ''Arrived at hub'']
   \<and> l_remarks (last (statusLogs (fst (handleStatusUpdate ex_env (t_id ex_transfer_received)
        ex_db_received (ex_page ex_transfer_received ex_update_silent))))) = Some []"
proof -
  have u: "pg_user (ex_page ex_transfer_received ex_update_silent) = Some ex_admin"
    and t: "pg_transfer (ex_page ex_transfer_received ex_update_silent)
        = Some ex_transfer_received"
    and f: "uf_remarks (pg_updateForm (ex_page ex_transfer_received ex_update_silent)) = []"
    by (simp_all add: ex_page_def ex_update_silent_def)
  have r: "remarks ex_transfer_received = Some ''Arrived at hub''"
    by (simp add: ex_transfer_received_def)
  from empty_remarks_resend_page_remarks[OF u t f ex_store_ok,
      of "t_id ex_transfer_received" ex_db_received]
  show ?thesis using u t f ex_store_ok r by (simp add: ex_db_received_def)
qed

end
